theory Spec2Isabelle
  imports
    Complex_Main
    "HOL-Library.Multiset"
    "HOL-Library.Sublist"
    "HOL-Library.Char_ord"
    "HOL-Library.List_Lexorder"
    "HOL-Library.Product_Lexorder"
begin

section \<open>The dataset\<close>

text \<open>
  \<^verbatim>\<open>app.py\<close> loads \<^verbatim>\<open>Supermart_Grocery_Dataset.csv\<close> once into the frame \<^verbatim>\<open>df\<close>
  and never writes to it again; the three callbacks read it.  The frame is modelled as
  the list of its rows, in file order, and is an explicit argument of every callback.

  A row carries the columns the callbacks read.  Every field of a row is present (no
  missing cell).  Amounts are exact rationals: the decimal numbers of the file, added
  without rounding.  An order date is the calendar date \<open>(year, month, day)\<close>; the
  lexicographic order on the triple is the chronological order.
\<close>

type_synonym date = "int \<times> int \<times> int"

record sales_record =
  Order_Date :: date
  Order_ID :: string
  Region :: string
  Category :: string
  Sub_Category :: string
  Sales :: rat
  Profit :: rat
  Discount :: rat


definition Month :: "sales_record \<Rightarrow> int" where
  "Month r = fst (snd (Order_Date r))"

section \<open>Column arithmetic\<close>

text \<open>
  A quotient of two columns is a float: a finite number, an infinity or not-a-number.
  Dividing by zero raises nothing; it yields \<open>NaN\<close> for \<open>0 / 0\<close> and a signed infinity
  otherwise.
\<close>

datatype np_float = Finite rat | PosInf | NegInf | NaN

definition np_div :: "rat \<Rightarrow> rat \<Rightarrow> np_float" where
  "np_div a b =
     (if b = 0 then (if a = 0 then NaN else if 0 < a then PosInf else NegInf)
      else Finite (a / b))"

fun np_times :: "np_float \<Rightarrow> rat \<Rightarrow> np_float" where
  "np_times (Finite q) c = Finite (q * c)"
| "np_times PosInf c = (if c = 0 then NaN else if 0 < c then PosInf else NegInf)"
| "np_times NegInf c = (if c = 0 then NaN else if 0 < c then NegInf else PosInf)"
| "np_times NaN c = NaN"



text \<open>\<^verbatim>\<open>Series.sum()\<close> of a column of amounts; the sum of no row is 0.\<close>

definition col_sum :: "('r \<Rightarrow> rat) \<Rightarrow> 'r list \<Rightarrow> rat" where
  "col_sum col rows = sum_list (map col rows)"

text \<open>\<^verbatim>\<open>Series.unique()\<close>: the distinct values in order of first appearance.\<close>

definition unique :: "'a list \<Rightarrow> 'a list" where
  "unique xs = rev (remdups (rev xs))"

text \<open>\<^verbatim>\<open>Series.nunique()\<close>: the number of distinct values.\<close>

definition nunique :: "'a list \<Rightarrow> nat" where
  "nunique xs = length (unique xs)"

section \<open>Grouping\<close>

text \<open>
  \<^verbatim>\<open>df.groupby(key)\<close> makes one group per key value that occurs, the groups in
  ascending key order (\<^verbatim>\<open>sort=True\<close>, the default); each group holds the rows of that
  key in frame order.
\<close>

definition group_keys :: "('r \<Rightarrow> 'k::linorder) \<Rightarrow> 'r list \<Rightarrow> 'k list" where
  "group_keys f rows = sort (remdups (map f rows))"

definition group_rows :: "('r \<Rightarrow> 'k) \<Rightarrow> 'r list \<Rightarrow> 'k \<Rightarrow> 'r list" where
  "group_rows f rows k = filter (\<lambda>r. f r = k) rows"

text \<open>
  A row of \<^verbatim>\<open>.agg({'Sales': 'sum', 'Profit': 'sum'}).reset_index()\<close>: the key and the two
  sums.  \<open>Margin\<close> is the value of the frame's \<^verbatim>\<open>Margin\<close> column, \<open>None\<close> in a frame that
  was never given that column.
\<close>

record 'k agg_row =
  group_key :: 'k
  Sales_sum :: rat
  Profit_sum :: rat
  Margin :: "np_float option"

definition agg_sales_profit :: "('r \<Rightarrow> 'k) \<Rightarrow> ('r \<Rightarrow> rat) \<Rightarrow> ('r \<Rightarrow> rat) \<Rightarrow> 'r list \<Rightarrow> 'k \<Rightarrow> 'k agg_row" where
  "agg_sales_profit f sales profit rows k =
     \<lparr>group_key = k,
      Sales_sum = col_sum sales (group_rows f rows k),
      Profit_sum = col_sum profit (group_rows f rows k),
      Margin = None\<rparr>"

text \<open>\<^verbatim>\<open>frame['Margin'] = (frame['Profit'] / frame['Sales']) * 100\<close>, row by row.\<close>

definition with_margin :: "'k agg_row \<Rightarrow> 'k agg_row" where
  "with_margin row = row\<lparr>Margin := Some (np_times (np_div (Profit_sum row) (Sales_sum row)) 100)\<rparr>"

section \<open>The sales dashboard\<close>

text \<open>
  \<^verbatim>\<open>update_sales_dashboard(start_date, end_date)\<close>.  The two arguments are the dates the
  date picker holds, after \<^verbatim>\<open>pd.to_datetime\<close>.
\<close>

text \<open>\<^verbatim>\<open>df[(df['Order Date'] >= start_date) & (df['Order Date'] <= end_date)]\<close>\<close>

definition filter_dates :: "sales_record list \<Rightarrow> date \<Rightarrow> date \<Rightarrow> sales_record list" where
  "filter_dates df start_date end_date =
     filter (\<lambda>r. start_date \<le> Order_Date r \<and> Order_Date r \<le> end_date) df"

text \<open>The four numbers of the overview cards.\<close>

record overview =
  total_sales :: rat
  total_profit :: rat
  avg_profit_margin :: np_float
  order_count :: nat

definition overview_of :: "sales_record list \<Rightarrow> overview" where
  "overview_of filtered_df =
     (let ts = col_sum Sales filtered_df;
          tp = col_sum Profit filtered_df
      in \<lparr>total_sales = ts,
          total_profit = tp,
          avg_profit_margin = (if 0 < ts then np_times (np_div tp ts) 100 else Finite 0),
          order_count = nunique (map Order_ID filtered_df)\<rparr>)"

text \<open>
  \<^verbatim>\<open>groupby(pd.Grouper(key='Order Date', freq='M'))\<close>: one bucket per calendar month
  from the month of the earliest row to the month of the latest, a month without rows
  included with sums 0; each bucket is labelled with the last day of its month.  No row,
  no bucket.  A month is numbered \<open>12 * year + (month - 1)\<close>.
\<close>

definition month_index :: "date \<Rightarrow> int" where
  "month_index d = 12 * fst d + (fst (snd d) - 1)"

definition is_leap :: "int \<Rightarrow> bool" where
  "is_leap y = (y mod 4 = 0 \<and> (y mod 100 \<noteq> 0 \<or> y mod 400 = 0))"

definition days_in_month :: "int \<Rightarrow> int \<Rightarrow> int" where
  "days_in_month y m =
     (if m = 2 then (if is_leap y then 29 else 28)
      else if m = 4 \<or> m = 6 \<or> m = 9 \<or> m = 11 then 30 else 31)"

definition month_end :: "int \<Rightarrow> date" where
  "month_end k = (k div 12, k mod 12 + 1, days_in_month (k div 12) (k mod 12 + 1))"

definition month_range :: "sales_record list \<Rightarrow> int list" where
  "month_range rows =
     (case map (month_index \<circ> Order_Date) rows of
        [] \<Rightarrow> []
      | k # ks \<Rightarrow> [fold min ks k .. fold max ks k])"

definition monthly_bucket :: "sales_record list \<Rightarrow> int \<Rightarrow> date agg_row" where
  "monthly_bucket rows k =
     \<lparr>group_key = month_end k,
      Sales_sum = col_sum Sales (group_rows (month_index \<circ> Order_Date) rows k),
      Profit_sum = col_sum Profit (group_rows (month_index \<circ> Order_Date) rows k),
      Margin = None\<rparr>"

definition monthly_data :: "sales_record list \<Rightarrow> date agg_row list" where
  "monthly_data filtered_df = map (monthly_bucket filtered_df) (month_range filtered_df)"

text \<open>
  The three figures, as the data series they plot: the two month lines read
  \<^verbatim>\<open>monthly_data\<close>, the scatter reads the filtered rows themselves.
\<close>

record sales_dashboard =
  overview_cards :: overview
  sales_fig :: "(date \<times> rat) list"
  profit_fig :: "(date \<times> rat) list"
  discount_fig :: "(rat \<times> rat \<times> string) list"

definition update_sales_dashboard :: "sales_record list \<Rightarrow> date \<Rightarrow> date \<Rightarrow> sales_dashboard" where
  "update_sales_dashboard df start_date end_date =
     (let filtered_df = filter_dates df start_date end_date;
          monthly = monthly_data filtered_df
      in \<lparr>overview_cards = overview_of filtered_df,
          sales_fig = map (\<lambda>row. (group_key row, Sales_sum row)) monthly,
          profit_fig = map (\<lambda>row. (group_key row, Profit_sum row)) monthly,
          discount_fig = map (\<lambda>r. (Discount r, Sales r, Category r)) filtered_df\<rparr>)"

section \<open>The regional analysis\<close>




text \<open>
  \<^verbatim>\<open>df.groupby('Region').agg({'Sales': 'sum', 'Profit': 'sum'}).reset_index()\<close>, then the
  \<^verbatim>\<open>Margin\<close> column; the whole frame \<^verbatim>\<open>df\<close>, no date filter.
\<close>

definition region_data :: "sales_record list \<Rightarrow> string agg_row list" where
  "region_data df =
     map (with_margin \<circ> agg_sales_profit Region Sales Profit df) (group_keys Region df)"







section \<open>The category analysis\<close>

text \<open>A row of \<^verbatim>\<open>.agg({'Sales': 'sum'}).reset_index()\<close>: the key and the one sum.\<close>

record 'k sales_row =
  row_key :: 'k
  Sales_total :: rat

definition agg_sales :: "('r \<Rightarrow> 'k) \<Rightarrow> ('r \<Rightarrow> rat) \<Rightarrow> 'r list \<Rightarrow> 'k \<Rightarrow> 'k sales_row" where
  "agg_sales f sales rows k = \<lparr>row_key = k, Sales_total = col_sum sales (group_rows f rows k)\<rparr>"

text \<open>\<^verbatim>\<open>filtered_df.groupby('Category').agg({'Sales': 'sum', 'Profit': 'sum'}).reset_index()\<close>\<close>

definition category_data :: "sales_record list \<Rightarrow> string agg_row list" where
  "category_data filtered_df =
     map (agg_sales_profit Category Sales Profit filtered_df) (group_keys Category filtered_df)"

text \<open>\<^verbatim>\<open>filtered_df.groupby(['Category', 'Sub Category']).agg({'Sales': 'sum'}).reset_index()\<close>\<close>

definition category_sub :: "sales_record \<Rightarrow> string \<times> string" where
  "category_sub r = (Category r, Sub_Category r)"

definition subcategory_sums :: "sales_record list \<Rightarrow> (string \<times> string) sales_row list" where
  "subcategory_sums filtered_df =
     map (agg_sales category_sub Sales filtered_df) (group_keys category_sub filtered_df)"

text \<open>
  \<^verbatim>\<open>subcategory_data.sort_values('Sales', ascending=False)\<close> is a call into the library,
  with its default \<^verbatim>\<open>kind='quicksort'\<close>.  The library promises the rows back in
  descending order of \<^verbatim>\<open>Sales\<close>; of the sort kinds it documents only \<^verbatim>\<open>mergesort\<close> and
  \<^verbatim>\<open>stable\<close> as stable.  The routine is therefore an argument \<open>sort_values\<close> of the
  callback, and \<open>sort_values_desc\<close> is what the library promises of it.
\<close>

type_synonym 'k sorter = "'k sales_row list \<Rightarrow> 'k sales_row list"

definition sort_values_desc :: "'k sorter \<Rightarrow> bool" where
  "sort_values_desc sort_values =
     (\<forall>frame. mset (sort_values frame) = mset frame \<and>
        sorted_wrt (\<lambda>a b. Sales_total b \<le> Sales_total a) (sort_values frame))"



fun quicksort_desc :: "'k sorter" where
  "quicksort_desc [] = []"
| "quicksort_desc (p # frame) =
     quicksort_desc (filter (\<lambda>row. Sales_total p \<le> Sales_total row) frame)
     @ p # quicksort_desc (filter (\<lambda>row. Sales_total row < Sales_total p) frame)"

text \<open>
  \<^verbatim>\<open>update_category_analysis(categories)\<close>: the three figures, as the data they plot.  The
  category bars plot \<^verbatim>\<open>Sales\<close> of \<^verbatim>\<open>category_data\<close>; the sub-category bars plot the first
  ten rows of the sorted sums (\<^verbatim>\<open>.head(10)\<close>); the treemap plots the sums unsorted.
\<close>

record category_figs =
  category_fig :: "(string \<times> rat) list"
  subcategory_fig :: "(string \<times> string) sales_row list"
  treemap_fig :: "(string \<times> string) sales_row list"

definition category_figures :: "(string \<times> string) sorter \<Rightarrow> sales_record list \<Rightarrow> category_figs" where
  "category_figures sort_values filtered_df =
     \<lparr>category_fig = map (\<lambda>row. (group_key row, Sales_sum row)) (category_data filtered_df),
      subcategory_fig = take 10 (sort_values (subcategory_sums filtered_df)),
      treemap_fig = subcategory_sums filtered_df\<rparr>"

text \<open>\<^verbatim>\<open>filtered_df = df[df['Category'].isin(categories)]\<close>\<close>

definition update_category_analysis ::
  "(string \<times> string) sorter \<Rightarrow> sales_record list \<Rightarrow> string list \<Rightarrow> category_figs" where
  "update_category_analysis sort_values df categories =
     category_figures sort_values (filter (\<lambda>r. Category r \<in> set categories) df)"

section \<open>Example datasets\<close>

text \<open>
  Two line items of one order in January 2023; the same with a third line item of
  another order in March; a frame in which two regions sold nothing; a frame with two
  sub-categories of equal sales; a frame with eleven sub-categories.
\<close>

definition example_df :: "sales_record list" where
  "example_df =
     [\<lparr>Order_Date = (2023, 1, 15), Order_ID = ''OrderA'', Region = ''South'',
       Category = ''Fruit'', Sub_Category = ''Apple'', Sales = 100, Profit = 20,
       Discount = 1 / 10\<rparr>,
      \<lparr>Order_Date = (2023, 1, 20), Order_ID = ''OrderA'', Region = ''South'',
       Category = ''Fruit'', Sub_Category = ''Apple'', Sales = 50, Profit = 10,
       Discount = 1 / 20\<rparr>]"

definition quarter_df :: "sales_record list" where
  "quarter_df = example_df @
     [\<lparr>Order_Date = (2023, 3, 5), Order_ID = ''OrderB'', Region = ''North'',
       Category = ''Dairy'', Sub_Category = ''Milk'', Sales = 30, Profit = 6,
       Discount = 0\<rparr>]"

definition unsold_df :: "sales_record list" where
  "unsold_df =
     [\<lparr>Order_Date = (2023, 1, 15), Order_ID = ''OrderA'', Region = ''East'',
       Category = ''Fruit'', Sub_Category = ''Apple'', Sales = 0, Profit = 0,
       Discount = 0\<rparr>,
      \<lparr>Order_Date = (2023, 1, 20), Order_ID = ''OrderB'', Region = ''North'',
       Category = ''Fruit'', Sub_Category = ''Apple'', Sales = 100, Profit = 20,
       Discount = 0\<rparr>,
      \<lparr>Order_Date = (2024, 2, 20), Order_ID = ''OrderC'', Region = ''West'',
       Category = ''Fruit'', Sub_Category = ''Apple'', Sales = 0, Profit = 5,
       Discount = 0\<rparr>]"




section \<open>Columns, sums and groups\<close>

lemma set_unique: "set (unique xs) = set xs"
  by (simp add: unique_def)

lemma distinct_unique: "distinct (unique xs)"
  by (simp add: unique_def)

lemma nunique_card: "nunique xs = card (set xs)"
  unfolding nunique_def using distinct_card[OF distinct_unique, of xs]
  by (simp add: set_unique)

lemma col_sum_mset: "col_sum col rows = (\<Sum>r\<in>#mset rows. col r)"
  by (simp add: col_sum_def sum_mset_sum_list[symmetric])











lemma with_margin_fields:
  "group_key (with_margin row) = group_key row"
  "Sales_sum (with_margin row) = Sales_sum row"
  "Profit_sum (with_margin row) = Profit_sum row"
  "Margin (with_margin row) = Some (np_times (np_div (Profit_sum row) (Sales_sum row)) 100)"
  by (simp_all add: with_margin_def)

lemma agg_sales_profit_fields:
  "group_key (agg_sales_profit f sa pr rows k) = k"
  "Sales_sum (agg_sales_profit f sa pr rows k) = col_sum sa (group_rows f rows k)"
  "Profit_sum (agg_sales_profit f sa pr rows k) = col_sum pr (group_rows f rows k)"
  "Margin (agg_sales_profit f sa pr rows k) = None"
  by (simp_all add: agg_sales_profit_def)

section \<open>Properties of the sales dashboard\<close>

lemma dashboard_overview:
  "overview_cards (update_sales_dashboard df s e) = overview_of (filter_dates df s e)"
  by (simp add: update_sales_dashboard_def Let_def)



lemma overview_total_sales: "total_sales (overview_of rows) = col_sum Sales rows"
  by (simp add: overview_of_def Let_def)

lemma overview_total_profit: "total_profit (overview_of rows) = col_sum Profit rows"
  by (simp add: overview_of_def Let_def)

lemma overview_order_count: "order_count (overview_of rows) = nunique (map Order_ID rows)"
  by (simp add: overview_of_def Let_def)

lemma overview_margin:
  "avg_profit_margin (overview_of rows) =
     (if 0 < col_sum Sales rows
      then np_times (np_div (col_sum Profit rows) (col_sum Sales rows)) 100
      else Finite 0)"
  by (simp add: overview_of_def Let_def)

text \<open>
  Claim C1.  For every date window, inclusive at both ends, the overview's total sales is
  the sum of \<^verbatim>\<open>Sales\<close> over the rows whose order date lies in the window, its total
  profit is the sum of \<^verbatim>\<open>Profit\<close> over those rows, and its order count is the number of
  distinct \<^verbatim>\<open>Order ID\<close> values among those rows.
\<close>

theorem overview_totals_of_window:
  "total_sales (overview_cards (update_sales_dashboard df s e)) =
     (\<Sum>r\<in>#filter_mset (\<lambda>r. s \<le> Order_Date r \<and> Order_Date r \<le> e) (mset df). Sales r)
   \<and> total_profit (overview_cards (update_sales_dashboard df s e)) =
     (\<Sum>r\<in>#filter_mset (\<lambda>r. s \<le> Order_Date r \<and> Order_Date r \<le> e) (mset df). Profit r)
   \<and> order_count (overview_cards (update_sales_dashboard df s e)) =
     card (Order_ID ` {r \<in> set df. s \<le> Order_Date r \<and> Order_Date r \<le> e})"
proof -
  let ?f = "filter_dates df s e"
  have m: "mset ?f = filter_mset (\<lambda>r. s \<le> Order_Date r \<and> Order_Date r \<le> e) (mset df)"
    by (simp add: filter_dates_def)
  have st: "set ?f = {r \<in> set df. s \<le> Order_Date r \<and> Order_Date r \<le> e}"
    by (simp add: filter_dates_def)
  show ?thesis
    unfolding dashboard_overview overview_total_sales overview_total_profit
      overview_order_count col_sum_mset m nunique_card set_map st
    by simp
qed

text \<open>
  The two line items of order \<open>OrderA\<close>, window January 2023: total sales 150, total
  profit 30, margin 20 percent, one order.
\<close>

theorem overview_totals_of_window_witness:
  "overview_cards (update_sales_dashboard example_df (2023, 1, 1) (2023, 1, 31)) =
     \<lparr>total_sales = 150, total_profit = 30, avg_profit_margin = Finite 20, order_count = 1\<rparr>
   \<and> (\<Sum>r\<in>#filter_mset (\<lambda>r. (2023, 1, 1) \<le> Order_Date r \<and> Order_Date r \<le> (2023, 1, 31))
         (mset example_df). Sales r) = 150
   \<and> (\<Sum>r\<in>#filter_mset (\<lambda>r. (2023, 1, 1) \<le> Order_Date r \<and> Order_Date r \<le> (2023, 1, 31))
         (mset example_df). Profit r) = 30
   \<and> card (Order_ID ` {r \<in> set example_df.
         (2023, 1, 1) \<le> Order_Date r \<and> Order_Date r \<le> (2023, 1, 31)}) = 1"
proof -
  have cards: "overview_cards (update_sales_dashboard example_df (2023, 1, 1) (2023, 1, 31)) =
      \<lparr>total_sales = 150, total_profit = 30, avg_profit_margin = Finite 20, order_count = 1\<rparr>"
    by code_simp
  show ?thesis
    using overview_totals_of_window[of example_df "(2023, 1, 1)" "(2023, 1, 31)"]
    unfolding cards by simp
qed









text \<open>
  Claim C3.  For every date window in which the total sales of the filtered rows is 0,
  the profit margin of the overview is the number 0: neither not-a-number nor an
  infinity, and no error.
\<close>

theorem margin_zero_when_no_sales:
  "total_sales (overview_cards (update_sales_dashboard df s e)) = 0 \<Longrightarrow>
     avg_profit_margin (overview_cards (update_sales_dashboard df s e)) = Finite 0"
  by (simp add: dashboard_overview overview_total_sales overview_margin)

text \<open>The year 2024 of \<open>unsold_df\<close>: one row, nothing sold, a profit of 5 booked.\<close>

theorem margin_zero_when_no_sales_witness:
  "total_sales (overview_cards (update_sales_dashboard unsold_df (2024, 1, 1) (2024, 12, 31))) = 0
   \<and> total_profit (overview_cards (update_sales_dashboard unsold_df (2024, 1, 1) (2024, 12, 31))) = 5
   \<and> avg_profit_margin (overview_cards (update_sales_dashboard unsold_df (2024, 1, 1) (2024, 12, 31)))
       = Finite 0"
proof -
  have sales: "total_sales (overview_cards
      (update_sales_dashboard unsold_df (2024, 1, 1) (2024, 12, 31))) = 0"
    by code_simp
  have profit: "total_profit (overview_cards
      (update_sales_dashboard unsold_df (2024, 1, 1) (2024, 12, 31))) = 5"
    by code_simp
  show ?thesis
    using sales profit margin_zero_when_no_sales[OF sales] by simp
qed

lemma filter_dates_empty:
  assumes "e < s \<or> (\<forall>r\<in>set df. Order_Date r < s \<or> e < Order_Date r)"
  shows "filter_dates df s e = []"
proof -
  have "\<not> (s \<le> Order_Date r \<and> Order_Date r \<le> e)" if "r \<in> set df" for r
    using assms that by (auto simp: not_le[symmetric] dest: order_trans)
  then show ?thesis by (simp add: filter_dates_def filter_empty_conv)
qed

text \<open>
  Claim C4.  For every date window that selects no row, because the start is after the
  end or because every row of the dataset lies before the start or after the end, the
  sales dashboard returns 0 for all four numbers of the overview and empty monthly and
  scatter series; it raises no error.
\<close>

theorem empty_window_empty_dashboard:
  assumes "e < s \<or> (\<forall>r\<in>set df. Order_Date r < s \<or> e < Order_Date r)"
  shows "update_sales_dashboard df s e =
    \<lparr>overview_cards =
       \<lparr>total_sales = 0, total_profit = 0, avg_profit_margin = Finite 0, order_count = 0\<rparr>,
     sales_fig = [], profit_fig = [], discount_fig = []\<rparr>"
  unfolding update_sales_dashboard_def filter_dates_empty[OF assms]
  by (simp add: overview_of_def col_sum_def nunique_def unique_def monthly_data_def
      month_range_def)

text \<open>A window that ends before it starts, and the year 2024, in which nothing was ordered.\<close>

theorem empty_window_empty_dashboard_witness:
  "((2023, 1, 1) :: date) < (2023, 2, 1)
   \<and> update_sales_dashboard example_df (2023, 2, 1) (2023, 1, 1) =
       \<lparr>overview_cards =
          \<lparr>total_sales = 0, total_profit = 0, avg_profit_margin = Finite 0, order_count = 0\<rparr>,
        sales_fig = [], profit_fig = [], discount_fig = []\<rparr>
   \<and> update_sales_dashboard example_df (2024, 1, 1) (2024, 12, 31) =
       \<lparr>overview_cards =
          \<lparr>total_sales = 0, total_profit = 0, avg_profit_margin = Finite 0, order_count = 0\<rparr>,
        sales_fig = [], profit_fig = [], discount_fig = []\<rparr>"
proof -
  have before: "((2023, 1, 1) :: date) < (2023, 2, 1)"
    by simp
  have outside: "\<forall>r\<in>set example_df. Order_Date r < (2024, 1, 1) \<or> (2024, 12, 31) < Order_Date r"
    by (simp add: example_df_def)
  show ?thesis
    using before
      empty_window_empty_dashboard[of "(2023, 1, 1)" "(2023, 2, 1)" example_df, OF disjI1[OF before]]
      empty_window_empty_dashboard[of "(2024, 12, 31)" "(2024, 1, 1)" example_df, OF disjI2[OF outside]]
    by simp
qed

section \<open>Properties of the regional analysis\<close>















section \<open>Properties of the category analysis\<close>



lemma mset_quicksort_desc: "mset (quicksort_desc frame) = mset frame"
proof (induction frame rule: quicksort_desc.induct)
  case 1
  show ?case by simp
next
  case (2 p frame)
  have "mset (filter (\<lambda>row. Sales_total p \<le> Sales_total row) frame)
      + mset (filter (\<lambda>row. Sales_total row < Sales_total p) frame) = mset frame"
    by (induction frame) auto
  with 2 show ?case by simp
qed

lemma set_quicksort_desc: "set (quicksort_desc frame) = set frame"
  using mset_quicksort_desc[of frame] by (metis set_mset_mset)

lemma sorted_quicksort_desc:
  "sorted_wrt (\<lambda>a b. Sales_total b \<le> Sales_total a) (quicksort_desc frame)"
  by (induction frame rule: quicksort_desc.induct)
     (auto simp: sorted_wrt_append set_quicksort_desc)

lemma quicksort_desc_contract: "sort_values_desc quicksort_desc"
  by (simp add: sort_values_desc_def mset_quicksort_desc sorted_quicksort_desc)


lemma sort_values_desc_Nil: "sort_values_desc srt \<Longrightarrow> srt [] = []"
  unfolding sort_values_desc_def by (metis mset_zero_iff)



lemma filter_all_categories:
  "set cats = Category ` set df \<Longrightarrow> filter (\<lambda>r. Category r \<in> set cats) df = df"
  by (simp add: filter_id_conv)

lemma category_figures_Nil:
  "sort_values_desc srt \<Longrightarrow>
     category_figures srt [] = \<lparr>category_fig = [], subcategory_fig = [], treemap_fig = []\<rparr>"
  by (simp add: category_figures_def category_data_def subcategory_sums_def group_keys_def
      sort_values_desc_Nil)

text \<open>
  Claim C6.  The sorting routine doing what the library promises: selecting exactly the
  category names that occur in the dataset gives the per-category, the per-sub-category
  and the treemap series of the unfiltered dataset, and selecting no category gives
  three empty series, without an error.
\<close>

theorem category_filter_full_and_empty:
  assumes "sort_values_desc srt"
  shows "(set cats = Category ` set df \<longrightarrow>
            update_category_analysis srt df cats = category_figures srt df)
       \<and> update_category_analysis srt df [] =
            \<lparr>category_fig = [], subcategory_fig = [], treemap_fig = []\<rparr>"
  using category_figures_Nil[OF assms]
  by (simp add: update_category_analysis_def filter_all_categories)

text \<open>
  The dropdown's default, \<^verbatim>\<open>df['Category'].unique().tolist()\<close>, on \<open>quarter_df\<close>: the
  categories \<open>Fruit\<close> and \<open>Dairy\<close>.
\<close>

theorem category_filter_full_and_empty_witness:
  "sort_values_desc (quicksort_desc :: (string \<times> string) sorter)
   \<and> unique (map Category quarter_df) = [''Fruit'', ''Dairy'']
   \<and> update_category_analysis quicksort_desc quarter_df [''Fruit'', ''Dairy''] =
       category_figures quicksort_desc quarter_df
   \<and> category_fig (category_figures quicksort_desc quarter_df) = [(''Dairy'', 30), (''Fruit'', 150)]
   \<and> update_category_analysis quicksort_desc quarter_df [] =
       \<lparr>category_fig = [], subcategory_fig = [], treemap_fig = []\<rparr>"
proof -
  have default: "unique (map Category quarter_df) = [''Fruit'', ''Dairy'']"
    by code_simp
  have full: "set [''Fruit'', ''Dairy''] = Category ` set quarter_df"
    using set_unique[of "map Category quarter_df"] unfolding default by simp
  have bars: "category_fig (category_figures quicksort_desc quarter_df) =
      [(''Dairy'', 30), (''Fruit'', 150)]"
    by code_simp
  show ?thesis
    using category_filter_full_and_empty[OF quicksort_desc_contract,
        of "[''Fruit'', ''Dairy'']" quarter_df]
      quicksort_desc_contract default full bars
    by blast
qed




section \<open>The aggregate rows\<close>

lemma monthly_data_row:
  assumes "row \<in> set (monthly_data rows)"
  shows "Sales_sum row =
           col_sum Sales (filter (\<lambda>r. month_index (Order_Date r) = month_index (group_key row)) rows)
       \<and> Profit_sum row =
           col_sum Profit (filter (\<lambda>r. month_index (Order_Date r) = month_index (group_key row)) rows)
       \<and> Margin row = None"
proof -
  have idx: "month_index (month_end k) = k" for k
    by (simp add: month_index_def month_end_def)
  from assms obtain k where "row = monthly_bucket rows k"
    by (auto simp: monthly_data_def)
  then show ?thesis
    by (simp add: monthly_bucket_def group_rows_def idx)
qed

lemma region_data_row:
  assumes "row \<in> set (region_data df)"
  shows "Sales_sum row = col_sum Sales (filter (\<lambda>r. Region r = group_key row) df)
       \<and> Profit_sum row = col_sum Profit (filter (\<lambda>r. Region r = group_key row) df)
       \<and> Margin row = Some (np_times (np_div (Profit_sum row) (Sales_sum row)) 100)"
  using assms
  by (auto simp: region_data_def with_margin_fields agg_sales_profit_fields group_rows_def)

lemma category_data_row:
  assumes "row \<in> set (category_data rows)"
  shows "Sales_sum row = col_sum Sales (filter (\<lambda>r. Category r = group_key row) rows)
       \<and> Profit_sum row = col_sum Profit (filter (\<lambda>r. Category r = group_key row) rows)
       \<and> Margin row = None"
  using assms
  by (auto simp: category_data_def agg_sales_profit_fields group_rows_def)

text \<open>
  Claim C8, as the code has it.  Every aggregate row, per month bucket, per region and
  per category, holds the summed sales and the summed profit of the rows of its group.
  A per-region row holds in addition the margin, the summed profit divided by the
  summed sales, times 100.  A per-month row and a per-category row hold no margin.
\<close>

theorem aggregate_rows_sums_and_margin:
  "(\<forall>row\<in>set (monthly_data (filter_dates df s e)).
      Sales_sum row =
        col_sum Sales (filter (\<lambda>r. month_index (Order_Date r) = month_index (group_key row))
          (filter_dates df s e))
    \<and> Profit_sum row =
        col_sum Profit (filter (\<lambda>r. month_index (Order_Date r) = month_index (group_key row))
          (filter_dates df s e))
    \<and> Margin row = None)
 \<and> (\<forall>row\<in>set (region_data df).
      Sales_sum row = col_sum Sales (filter (\<lambda>r. Region r = group_key row) df)
    \<and> Profit_sum row = col_sum Profit (filter (\<lambda>r. Region r = group_key row) df)
    \<and> Margin row = Some (np_times (np_div (Profit_sum row) (Sales_sum row)) 100))
 \<and> (\<forall>row\<in>set (category_data (filter (\<lambda>r. Category r \<in> set cats) df)).
      Sales_sum row =
        col_sum Sales (filter (\<lambda>r. Category r = group_key row)
          (filter (\<lambda>r. Category r \<in> set cats) df))
    \<and> Profit_sum row =
        col_sum Profit (filter (\<lambda>r. Category r = group_key row)
          (filter (\<lambda>r. Category r \<in> set cats) df))
    \<and> Margin row = None)"
  using monthly_data_row region_data_row category_data_row by blast

text \<open>
  The first quarter of \<open>quarter_df\<close>: three month rows and two category rows without a
  margin, two region rows with a margin of 20 percent each.
\<close>

theorem aggregate_rows_sums_and_margin_witness:
  "map Margin (monthly_data (filter_dates quarter_df (2023, 1, 1) (2023, 3, 31))) =
     [None, None, None]
   \<and> map Margin (region_data quarter_df) = [Some (Finite 20), Some (Finite 20)]
   \<and> map Margin (category_data (filter (\<lambda>r. Category r \<in> set [''Fruit'', ''Dairy'']) quarter_df)) =
     [None, None]
   \<and> list_all (\<lambda>row. Margin row = None)
       (monthly_data (filter_dates quarter_df (2023, 1, 1) (2023, 3, 31)))
   \<and> list_all (\<lambda>row. Margin row = Some (np_times (np_div (Profit_sum row) (Sales_sum row)) 100))
       (region_data quarter_df)"
proof -
  have months: "map Margin (monthly_data (filter_dates quarter_df (2023, 1, 1) (2023, 3, 31))) =
      [None, None, None]"
    by code_simp
  have regions: "map Margin (region_data quarter_df) = [Some (Finite 20), Some (Finite 20)]"
    by code_simp
  have categories:
    "map Margin (category_data (filter (\<lambda>r. Category r \<in> set [''Fruit'', ''Dairy'']) quarter_df)) =
      [None, None]"
    by code_simp
  show ?thesis
    using aggregate_rows_sums_and_margin[of quarter_df "(2023, 1, 1)" "(2023, 3, 31)"
        "[''Fruit'', ''Dairy'']"] months regions categories
    unfolding list_all_iff by blast
qed

text \<open>
  The claim with a margin in every aggregate row fails: the one month row of the
  January window of \<open>example_df\<close>, sales 150 and profit 30, has no margin, where the
  claim wants 20.
\<close>

theorem aggregate_rows_margin_counterexample:
  "monthly_data (filter_dates example_df (2023, 1, 1) (2023, 1, 31)) =
     [\<lparr>group_key = (2023, 1, 31), Sales_sum = 150, Profit_sum = 30, Margin = None\<rparr>]
   \<and> \<not> (\<forall>row\<in>set (monthly_data (filter_dates example_df (2023, 1, 1) (2023, 1, 31))).
          Margin row = Some (np_times (np_div (Profit_sum row) (Sales_sum row)) 100))"
proof -
  have month: "monthly_data (filter_dates example_df (2023, 1, 1) (2023, 1, 31)) =
      [\<lparr>group_key = (2023, 1, 31), Sales_sum = 150, Profit_sum = 30, Margin = None\<rparr>]"
    by code_simp
  show ?thesis
    unfolding month by simp
qed

end
